theory Spec2Isabelle
  imports Complex_Main
begin

section \<open>Values\<close>

text \<open>
  A TypeScript \<open>number\<close> is stored and read back by the code below, never computed
  with, so only the shape of the value matters: a finite value (carried as a real; the
  two zeros are one value here, as they are for \<open>===\<close> and \<open>>=\<close>), or one of the three
  special values.
\<close>

datatype number = Num real | NaN | PosInfinity | NegInfinity

text \<open>The comparison \<open>d >= 0\<close> of the language: false on \<open>NaN\<close>.\<close>

fun ge_zero :: "number \<Rightarrow> bool" where
  "ge_zero (Num r) = (0 \<le> r)"
| "ge_zero NaN = False"
| "ge_zero PosInfinity = True"
| "ge_zero NegInfinity = False"

section \<open>models/globalErrorMsg.ts\<close>

text \<open>
  The class \<open>GlobalErrorMsg\<close>: four public fields, none of them \<open>readonly\<close>. The
  field \<open>type\<close> is declared with a union of five string literals; types are erased
  when the program runs, so the field holds a string.
\<close>

record GlobalErrorMsg =
  title :: string
  msg :: string
  duration :: number
  type :: string

text \<open>The five literals of the declared type of \<open>type\<close>, in the order of the source.\<close>

definition notification_types :: "string list" where
  "notification_types = [''success'', ''warning'', ''info'', ''error'', '''']"

text \<open>
  The constructor: four assignments to the fields of the new object, in the order of the
  source, and nothing else.
\<close>

definition GlobalErrorMsg_new :: "string \<Rightarrow> string \<Rightarrow> number \<Rightarrow> string \<Rightarrow> GlobalErrorMsg" where
  "GlobalErrorMsg_new title' msg' duration' type' =
     \<lparr>title = title', msg = msg', duration = duration', type = type'\<rparr>"

text \<open>
  An assignment to one public field of an instance, \<open>m.title = v\<close> and its three
  siblings: the class declares no field \<open>readonly\<close> or \<open>private\<close>.
\<close>

definition assign_title :: "string \<Rightarrow> GlobalErrorMsg \<Rightarrow> GlobalErrorMsg" where
  "assign_title v m = m\<lparr>title := v\<rparr>"

definition assign_msg :: "string \<Rightarrow> GlobalErrorMsg \<Rightarrow> GlobalErrorMsg" where
  "assign_msg v m = m\<lparr>msg := v\<rparr>"

definition assign_duration :: "number \<Rightarrow> GlobalErrorMsg \<Rightarrow> GlobalErrorMsg" where
  "assign_duration v m = m\<lparr>duration := v\<rparr>"

definition assign_type :: "string \<Rightarrow> GlobalErrorMsg \<Rightarrow> GlobalErrorMsg" where
  "assign_type v m = m\<lparr>type := v\<rparr>"

section \<open>constants/app.ts\<close>

text \<open>
  The object literal bound to \<open>app\<close>: its properties as name and value, in the order of
  the source.
\<close>

definition app :: "(string \<times> string) list" where
  "app = [(''PRODUCTION'', ''production''), (''DEVELOPMENT'', ''development'')]"

text \<open>
  A read \<open>obj.k\<close> of an own property of the object, one written in its literal or assigned
  to it since: the value under the name, \<open>None\<close> where the object has no own property of
  that name. Names the object would inherit from its prototype are not looked up.
\<close>

definition read_prop :: "(string \<times> string) list \<Rightarrow> string \<Rightarrow> string option" where
  "read_prop obj k = map_of obj k"

text \<open>
  An assignment \<open>obj.k = v\<close>. The literal is bound with \<open>const\<close>, which fixes the binding
  and not the object: the source neither freezes the object nor declares a property
  \<open>readonly\<close>, so the assignment takes effect. A property of that name gets the new value
  in its place; otherwise the property is added after the others.
\<close>

fun assign_prop :: "string \<Rightarrow> string \<Rightarrow> (string \<times> string) list \<Rightarrow> (string \<times> string) list" where
  "assign_prop k v [] = [(k, v)]"
| "assign_prop k v ((k', v') # ps) =
     (if k' = k then (k, v) # ps else (k', v') # assign_prop k v ps)"

text \<open>The exports of the module: the one line \<open>export default app\<close>.\<close>

definition app_exports :: "(string \<times> (string \<times> string) list) list" where
  "app_exports = [(''default'', app)]"

section \<open>The state of the running program\<close>

text \<open>
  What the three modules hold while the program runs: the object bound to \<open>app\<close>, the
  instances of \<open>GlobalErrorMsg\<close> constructed so far (a reference to an instance is its
  index), and the value of the signal \<open>isDark\<close>.
\<close>

record world =
  app_object :: "(string \<times> string) list"
  messages :: "GlobalErrorMsg list"
  isDark_value :: bool

text \<open>
  After the modules are loaded: \<open>app\<close> is bound, nothing is constructed, and the signal
  holds the preference of the host, an opaque boolean.
\<close>

definition init :: "bool \<Rightarrow> world" where
  "init preference = \<lparr>app_object = app, messages = [], isDark_value = preference\<rparr>"

text \<open>
  \<open>new GlobalErrorMsg(title, msg, duration, type)\<close>: the reference to the new instance
  and the state with the instance added.
\<close>

definition new_GlobalErrorMsg ::
  "string \<Rightarrow> string \<Rightarrow> number \<Rightarrow> string \<Rightarrow> world \<Rightarrow> nat \<times> world" where
  "new_GlobalErrorMsg title' msg' duration' type' w =
     (length (messages w),
      w\<lparr>messages := messages w @ [GlobalErrorMsg_new title' msg' duration' type']\<rparr>)"

section \<open>utils/darkUtil.ts\<close>

text \<open>A boolean signal over a state: how it is read and how it is written.\<close>

record 's Ref =
  get_value :: "'s \<Rightarrow> bool"
  set_value :: "bool \<Rightarrow> 's \<Rightarrow> 's"

text \<open>
  Modelled from the spec: \<open>useDark\<close> is imported from the package \<open>@vueuse/core\<close>, whose code
  is not among the sources. The specification describes it as the function that creates
  the boolean signal tracking whether dark mode is active; the signal is readable and
  writable, and its first value is the preference of the host (see \<open>init\<close>).
\<close>

definition useDark :: "world Ref" where
  "useDark = \<lparr>get_value = isDark_value, set_value = (\<lambda>v w. w\<lparr>isDark_value := v\<rparr>)\<rparr>"

text \<open>
  Modelled from the spec: \<open>useToggle\<close> is imported from the package \<open>@vueuse/core\<close>, whose
  code is not among the sources. The specification describes it as the function that wraps
  a signal into a zero-argument operation which flips the boolean of the signal.
\<close>

definition useToggle :: "'s Ref \<Rightarrow> 's \<Rightarrow> 's" where
  "useToggle r s = set_value r (\<not> get_value r s) s"

text \<open>The two exported constants of the module, as the source binds them.\<close>

definition isDark :: "world Ref" where
  "isDark = useDark"

definition toggleDark :: "world \<Rightarrow> world" where
  "toggleDark = useToggle isDark"

section \<open>Programs over the three modules\<close>

text \<open>
  The statements a caller can build from what the three modules declare: a construction, an
  assignment to a field of an instance it holds a reference to, an assignment to a
  property of the exported object \<open>app\<close>, and a call of \<open>toggleDark()\<close>. A reference is
  always to a constructed instance; on any other index an assignment to a field leaves the
  state as it is.
\<close>

datatype statement =
    New string string number string
  | AssignTitle nat string
  | AssignMsg nat string
  | AssignDuration nat number
  | AssignType nat string
  | AssignApp string string
  | ToggleDark

definition update_message :: "nat \<Rightarrow> (GlobalErrorMsg \<Rightarrow> GlobalErrorMsg) \<Rightarrow> world \<Rightarrow> world" where
  "update_message a f w =
     (if a < length (messages w) then w\<lparr>messages := (messages w)[a := f (messages w ! a)]\<rparr>
      else w)"

fun exec :: "statement \<Rightarrow> world \<Rightarrow> world" where
  "exec (New title' msg' duration' type') w = snd (new_GlobalErrorMsg title' msg' duration' type' w)"
| "exec (AssignTitle a v) w = update_message a (assign_title v) w"
| "exec (AssignMsg a v) w = update_message a (assign_msg v) w"
| "exec (AssignDuration a v) w = update_message a (assign_duration v) w"
| "exec (AssignType a v) w = update_message a (assign_type v) w"
| "exec (AssignApp k v) w = w\<lparr>app_object := assign_prop k v (app_object w)\<rparr>"
| "exec ToggleDark w = toggleDark w"

definition run :: "statement list \<Rightarrow> world \<Rightarrow> world" where
  "run prog w = fold exec prog w"


section \<open>Auxiliary facts\<close>




lemma messages_update_message:
  "a < length (messages w) \<Longrightarrow> messages (update_message a f w) ! a = f (messages w ! a)"
  by (simp add: update_message_def)

section \<open>The error-message record\<close>

text \<open>
  Claim C1. For a duration that is at least zero and a type among the five declared
  literals, the constructed record has each of its four fields \<open>title\<close>, \<open>msg\<close>,
  \<open>duration\<close> and \<open>type\<close> equal to the corresponding argument, nothing transformed and
  nothing defaulted. In particular, constructing from \<open>Network Error\<close>,
  \<open>Failed to reach server\<close>, \<open>5000\<close> and \<open>error\<close> gives the record of exactly these four
  values (the specification calls the fields \<open>msg\<close> and \<open>type\<close> message and severity).
\<close>

theorem GlobalErrorMsg_new_valid_inputs:
  "(ge_zero d \<and> ty \<in> set notification_types \<longrightarrow>
      title (GlobalErrorMsg_new t m d ty) = t \<and> msg (GlobalErrorMsg_new t m d ty) = m \<and>
      duration (GlobalErrorMsg_new t m d ty) = d \<and> type (GlobalErrorMsg_new t m d ty) = ty) \<and>
   GlobalErrorMsg_new ''Network Error'' ''Failed to reach server'' (Num 5000) ''error'' =
     \<lparr>title = ''Network Error'', msg = ''Failed to reach server'', duration = Num 5000,
      type = ''error''\<rparr>"
  by (simp add: GlobalErrorMsg_new_def)

text \<open>
  The theorem at the duration zero and the empty type, the two values a constructor with
  defaults would be most likely to replace.
\<close>

theorem GlobalErrorMsg_new_valid_inputs_witness:
  "ge_zero (Num 0) \<and> '''' \<in> set notification_types \<and>
   title (GlobalErrorMsg_new ''Saved'' ''Profile updated'' (Num 0) '''') = ''Saved'' \<and>
   msg (GlobalErrorMsg_new ''Saved'' ''Profile updated'' (Num 0) '''') = ''Profile updated'' \<and>
   duration (GlobalErrorMsg_new ''Saved'' ''Profile updated'' (Num 0) '''') = Num 0 \<and>
   type (GlobalErrorMsg_new ''Saved'' ''Profile updated'' (Num 0) '''') = ''''"
proof -
  have h: "ge_zero (Num 0) \<and> '''' \<in> set notification_types"
    by (simp add: notification_types_def)
  with GlobalErrorMsg_new_valid_inputs [of "Num 0" "''''" "''Saved''" "''Profile updated''"]
  show ?thesis by blast
qed

text \<open>
  Claim C5. Construction and field access never fail, whatever the arguments: for every
  title, message, duration and type, and in every state, \<open>new\<close> returns a reference to an
  instance that exists in the resulting state, and reading its four fields gives the four
  arguments unchanged. This includes arguments outside the documented ranges, such as the
  duration \<open>-1\<close> with the type \<open>fatal\<close>: nothing is validated.
\<close>

theorem construction_never_fails:
  "(case new_GlobalErrorMsg t m d ty w of
      (a, w') \<Rightarrow> a < length (messages w') \<and> title (messages w' ! a) = t \<and>
        msg (messages w' ! a) = m \<and> duration (messages w' ! a) = d \<and>
        type (messages w' ! a) = ty) \<and>
   \<not> ge_zero (Num (- 1)) \<and> ''fatal'' \<notin> set notification_types \<and>
   GlobalErrorMsg_new ''t'' ''m'' (Num (- 1)) ''fatal'' =
     \<lparr>title = ''t'', msg = ''m'', duration = Num (- 1), type = ''fatal''\<rparr>"
  by (simp add: new_GlobalErrorMsg_def GlobalErrorMsg_new_def notification_types_def)

text \<open>
  Claim C7. Constructing an instance only adds the new instance: the reference returned is
  the next free one, the instances constructed before are all still there and unchanged,
  and neither the object \<open>app\<close> nor the value of \<open>isDark\<close> changes.
\<close>

theorem construction_frame:
  "fst (new_GlobalErrorMsg t m d ty w) = length (messages w) \<and>
   length (messages (snd (new_GlobalErrorMsg t m d ty w))) = Suc (length (messages w)) \<and>
   take (length (messages w)) (messages (snd (new_GlobalErrorMsg t m d ty w))) = messages w \<and>
   app_object (snd (new_GlobalErrorMsg t m d ty w)) = app_object w \<and>
   isDark_value (snd (new_GlobalErrorMsg t m d ty w)) = isDark_value w"
  by (simp add: new_GlobalErrorMsg_def)

text \<open>
  Claim C9. An instance can be changed after its construction: an assignment to one of the
  four fields of a constructed instance sets that field of the instance to the assigned
  value and leaves its other three fields as they were.
\<close>

theorem field_assignment:
  "a < length (messages w) \<Longrightarrow>
   (let m = messages w ! a; m' = messages (exec (AssignTitle a s) w) ! a
    in title m' = s \<and> msg m' = msg m \<and> duration m' = duration m \<and> type m' = type m) \<and>
   (let m = messages w ! a; m' = messages (exec (AssignMsg a s) w) ! a
    in title m' = title m \<and> msg m' = s \<and> duration m' = duration m \<and> type m' = type m) \<and>
   (let m = messages w ! a; m' = messages (exec (AssignDuration a d) w) ! a
    in title m' = title m \<and> msg m' = msg m \<and> duration m' = d \<and> type m' = type m) \<and>
   (let m = messages w ! a; m' = messages (exec (AssignType a s) w) ! a
    in title m' = title m \<and> msg m' = msg m \<and> duration m' = duration m \<and> type m' = s)"
  by (simp add: messages_update_message assign_title_def assign_msg_def assign_duration_def
        assign_type_def Let_def)

text \<open>
  The theorem on the instance constructed first in a fresh program, each of its fields
  assigned in turn.
\<close>

theorem field_assignment_witness:
  "0 < length (messages (run [New ''t'' ''m'' (Num 3) ''info''] (init False))) \<and>
   messages (run [New ''t'' ''m'' (Num 3) ''info'', AssignTitle 0 ''u''] (init False)) ! 0 =
     \<lparr>title = ''u'', msg = ''m'', duration = Num 3, type = ''info''\<rparr> \<and>
   messages (run [New ''t'' ''m'' (Num 3) ''info'', AssignMsg 0 ''u''] (init False)) ! 0 =
     \<lparr>title = ''t'', msg = ''u'', duration = Num 3, type = ''info''\<rparr> \<and>
   messages (run [New ''t'' ''m'' (Num 3) ''info'', AssignDuration 0 (Num 0)] (init False)) ! 0 =
     \<lparr>title = ''t'', msg = ''m'', duration = Num 0, type = ''info''\<rparr> \<and>
   messages (run [New ''t'' ''m'' (Num 3) ''info'', AssignType 0 ''u''] (init False)) ! 0 =
     \<lparr>title = ''t'', msg = ''m'', duration = Num 3, type = ''u''\<rparr>"
proof -
  define w where "w = run [New ''t'' ''m'' (Num 3) ''info''] (init False)"
  have m: "messages w = [\<lparr>title = ''t'', msg = ''m'', duration = Num 3, type = ''info''\<rparr>]"
    by (simp add: w_def run_def init_def new_GlobalErrorMsg_def GlobalErrorMsg_new_def)
  have h: "0 < length (messages w)"
    by (simp add: m)
  have r: "run [New ''t'' ''m'' (Num 3) ''info'', st] (init False) = exec st w" for st
    by (simp add: w_def run_def)
  from field_assignment [OF h, of "''u''" "Num 0"] h show ?thesis
    unfolding r w_def [symmetric] by (simp add: m Let_def)
qed

section \<open>The environment constants\<close>

text \<open>
  Claim C4. Reading \<open>PRODUCTION\<close> from \<open>app\<close> gives the string \<open>production\<close>, reading
  \<open>DEVELOPMENT\<close> gives the string \<open>development\<close>, and the two values differ.
\<close>

theorem app_values:
  "read_prop app ''PRODUCTION'' = Some ''production'' \<and>
   read_prop app ''DEVELOPMENT'' = Some ''development'' \<and>
   read_prop app ''PRODUCTION'' \<noteq> read_prop app ''DEVELOPMENT''"
  by (simp add: read_prop_def app_def)




text \<open>
  Claim C10. The object \<open>app\<close> has the two properties \<open>PRODUCTION\<close> and \<open>DEVELOPMENT\<close>
  and no other, and the module exports one thing, \<open>app\<close>, as its default export.
\<close>

theorem app_exactly_two_properties:
  "map fst app = [''PRODUCTION'', ''DEVELOPMENT''] \<and>
   dom (read_prop app) = {''PRODUCTION'', ''DEVELOPMENT''} \<and>
   map fst app_exports = [''default''] \<and>
   map_of app_exports ''default'' = Some app"
  by (auto simp add: app_def app_exports_def read_prop_def dom_def split: if_splits)

section \<open>The dark-mode toggle\<close>

text \<open>
  Claim C2. In every state, after one call of \<open>toggleDark()\<close> the value of \<open>isDark\<close> is the
  negation of its value before the call.
\<close>

theorem toggleDark_negates:
  "get_value isDark (toggleDark w) = (\<not> get_value isDark w)"
  by (simp add: toggleDark_def useToggle_def isDark_def useDark_def)

text \<open>
  Claim C3. In every state, two calls of \<open>toggleDark()\<close> in succession bring \<open>isDark\<close> back
  to the value it had before the first call; the whole state is as it was.
\<close>

theorem toggleDark_twice:
  "get_value isDark (toggleDark (toggleDark w)) = get_value isDark w \<and>
   toggleDark (toggleDark w) = w"
  by (simp add: toggleDark_def useToggle_def isDark_def useDark_def)

end
